theory Spec2Isabelle
  imports Main "HOL-Library.Sublist"
begin

section \<open>The GPU controller of gpu-service-v3-pair.py\<close>

text \<open>
  The script drives a remote job through \<^verbatim>\<open>ssh\<close>, \<^verbatim>\<open>rsync\<close> and the local file
  system. Every call that leaves the Python program is modelled as an event that is
  appended to a trace, together with the outcome the environment gives to it. The
  environment (the "world") is a parameter of every function: it fixes, call by call,
  whether the call returns, raises an exception or is interrupted from the keyboard.
  Calls to \<^verbatim>\<open>print\<close> and to the progress bar have no influence on
  control flow and are left out of the trace; log messages are kept.
\<close>

subsection \<open>Outcomes of calls and the trace\<close>

text \<open>
  \<open>Returned v\<close>: the call returned \<open>v\<close>. \<open>Raised m\<close>: it raised an exception
  derived from \<^verbatim>\<open>Exception\<close> whose text \<^verbatim>\<open>str(e)\<close> is \<open>m\<close>.
  \<open>Interrupted\<close>: it raised \<^verbatim>\<open>KeyboardInterrupt\<close>, which
  \<^verbatim>\<open>except Exception\<close> does not catch.
\<close>

datatype 'a outcome = Returned 'a | Raised string | Interrupted

datatype level = INFO | WARNING | ERROR

type_synonym tarball = "(string \<times> string) list"
  \<comment> \<open>the members of a tar archive in order: (name in the archive, file data)\<close>

datatype event =
    Run "string list"             \<comment> \<open>\<^verbatim>\<open>subprocess.run(argv, ...)\<close>\<close>
  | Sleep nat                     \<comment> \<open>\<^verbatim>\<open>time.sleep(seconds)\<close>\<close>
  | Glob string                   \<comment> \<open>\<^verbatim>\<open>glob.glob(pattern)\<close>\<close>
  | TarOpen string                \<comment> \<open>\<^verbatim>\<open>tarfile.open(name, mode)\<close>\<close>
  | TarAdd string string          \<comment> \<open>\<^verbatim>\<open>tar.add(file_path, arcname=...)\<close>\<close>
  | TarClose string tarball       \<comment> \<open>leaving the \<^verbatim>\<open>with\<close> block of a written archive\<close>
  | TarExtract "string list"      \<comment> \<open>\<^verbatim>\<open>tar.extractall(path=...)\<close>: the paths written\<close>
  | Listdir string                \<comment> \<open>\<^verbatim>\<open>os.listdir(dir)\<close>\<close>
  | Remove string                 \<comment> \<open>\<^verbatim>\<open>os.remove(path)\<close>\<close>
  | Makedirs string               \<comment> \<open>\<^verbatim>\<open>os.makedirs(dir, exist_ok=True)\<close>\<close>
  | Logged level string           \<comment> \<open>\<^verbatim>\<open>logging.info/warning/error(msg)\<close>\<close>

type_synonym trace = "event list"

type_synonym 'a act = "trace \<Rightarrow> 'a outcome \<times> trace"

definition ret :: "'a \<Rightarrow> 'a act" where
  "ret v t = (Returned v, t)"

definition raise :: "string \<Rightarrow> 'a act" where
  "raise m t = (Raised m, t)"

definition and_then :: "'a act \<Rightarrow> ('a \<Rightarrow> 'b act) \<Rightarrow> 'b act" where
  "and_then m f t =
     (case m t of
        (Returned v, t') \<Rightarrow> f v t'
      | (Raised e, t') \<Rightarrow> (Raised e, t')
      | (Interrupted, t') \<Rightarrow> (Interrupted, t'))"

definition except_Exception :: "'a act \<Rightarrow> (string \<Rightarrow> 'a act) \<Rightarrow> 'a act" where
  "except_Exception m handler t =
     (case m t of
        (Returned v, t') \<Rightarrow> (Returned v, t')
      | (Raised e, t') \<Rightarrow> handler e t'
      | (Interrupted, t') \<Rightarrow> (Interrupted, t'))"

definition call :: "event \<Rightarrow> 'a outcome \<Rightarrow> 'a act" where
  "call ev r t = (r, t @ [ev])"

definition logged :: "level \<Rightarrow> string \<Rightarrow> unit act" where
  "logged lvl msg = call (Logged lvl msg) (Returned ())"

subsection \<open>Strings and paths\<close>

definition digit_char :: "nat \<Rightarrow> char" where
  "digit_char d = ''0123456789'' ! d"

function str_nat :: "nat \<Rightarrow> string" where
  "str_nat n = (if n < 10 then [digit_char n] else str_nat (n div 10) @ [digit_char (n mod 10)])"
  by pat_completeness auto
termination
  by (relation "measure id") auto

declare str_nat.simps [simp del]

definition apostrophe :: string where
  "apostrophe = [CHR 0x27]"

definition py_join :: "string \<Rightarrow> string list \<Rightarrow> string" where
  \<comment> \<open>\<^verbatim>\<open>sep.join(xs)\<close>\<close>
  "py_join sep xs = (case xs of [] \<Rightarrow> [] | y # ys \<Rightarrow> y @ concat (map (\<lambda>z. sep @ z) ys))"

definition basename :: "string \<Rightarrow> string" where
  \<comment> \<open>\<^verbatim>\<open>os.path.basename\<close>: what follows the last slash\<close>
  "basename p = rev (takeWhile (\<lambda>c. c \<noteq> CHR ''/'') (rev p))"

definition os_path_join :: "string \<Rightarrow> string \<Rightarrow> string" where
  \<comment> \<open>\<^verbatim>\<open>os.path.join(a, b)\<close> on POSIX\<close>
  "os_path_join a b =
     (if prefix ''/'' b then b
      else if a = [] \<or> suffix ''/'' a then a @ b
      else a @ ''/'' @ b)"

subsection \<open>Configuration\<close>

text \<open>
  \<open>config\<close> is the dictionary \<^verbatim>\<open>self.config\<close> after \<^verbatim>\<open>_load_config\<close> has checked
  that the three required keys are there. \<open>port\<close> holds the text that
  \<^verbatim>\<open>str(self.config['port'])\<close> gives; \<open>keep_remote\<close> is \<open>None\<close> when the key
  is missing from the file and otherwise the truth value of what the file gives.
\<close>

record config =
  host :: string
  port :: string
  remote_path :: string
  keep_remote :: "bool option"

record raw_config =
  raw_host :: "string option"
  raw_port :: "string option"
  raw_remote_path :: "string option"
  raw_keep_remote :: "bool option"

datatype config_file = NoFile | Unreadable string | Json raw_config

definition load_config :: "string \<Rightarrow> config_file \<Rightarrow> config act" where
  "load_config config_name f =
     (case f of
        NoFile \<Rightarrow>
          raise (''Config file '' @ config_name @ '' not found. Please create it with vast.ai details.'')
      | Unreadable e \<Rightarrow> raise e
      | Json r \<Rightarrow>
          (case (raw_host r, raw_port r, raw_remote_path r) of
             (Some h, Some p, Some rp) \<Rightarrow>
               ret \<lparr>host = h, port = p, remote_path = rp, keep_remote = raw_keep_remote r\<rparr>
           | _ \<Rightarrow> raise (''Config file must contain: ['' @ apostrophe @ ''host'' @ apostrophe @ '', ''
                        @ apostrophe @ ''port'' @ apostrophe @ '', ''
                        @ apostrophe @ ''remote_path'' @ apostrophe @ '']'')))"

definition config_get_keep_remote :: "config \<Rightarrow> bool" where
  \<comment> \<open>\<^verbatim>\<open>self.config.get('keep_remote', False)\<close>\<close>
  "config_get_keep_remote cfg = (case keep_remote cfg of None \<Rightarrow> False | Some b \<Rightarrow> b)"

definition ssh :: "config \<Rightarrow> string \<Rightarrow> string list" where
  \<comment> \<open>\<^verbatim>\<open>['ssh', '-p', str(self.config['port']), self.config['host'], cmd]\<close>\<close>
  "ssh cfg cmd = [''ssh'', ''-p'', port cfg, host cfg, cmd]"

definition run_checked :: "string list \<Rightarrow> string outcome \<Rightarrow> string act" where
  \<comment> \<open>\<^verbatim>\<open>subprocess.run(argv, check=True)\<close>: \<open>Returned out\<close> is exit status 0;
      a nonzero exit status raises \<^verbatim>\<open>CalledProcessError\<close>, whose text the world gives\<close>
  "run_checked argv r = call (Run argv) r"

definition run_unchecked :: "string list \<Rightarrow> (int \<times> string) outcome \<Rightarrow> (int \<times> string) act" where
  \<comment> \<open>\<^verbatim>\<open>subprocess.run(argv)\<close>: the return code and the captured output\<close>
  "run_unchecked argv r = call (Run argv) r"

subsection \<open>verify_connection and find_audio_pair\<close>

definition verify_connection :: "config \<Rightarrow> (int \<times> string) outcome \<Rightarrow> bool act" where
  "verify_connection cfg connection =
     except_Exception
       (and_then (run_unchecked (ssh cfg ''echo \"Connection test\"'') connection) (\<lambda>result.
        ret (fst result = 0)))
       (\<lambda>e. and_then (logged ERROR (''Connection error: '' @ e)) (\<lambda>_. ret False))"

definition find_audio_pair ::
  "string \<Rightarrow> string list outcome \<Rightarrow> string list outcome \<Rightarrow> (string option \<times> string option) act" where
  "find_audio_pair input_dir wav_glob json_glob =
     except_Exception
       (and_then (call (Glob (os_path_join input_dir ''*.wav'')) wav_glob) (\<lambda>wav_files.
        and_then (call (Glob (os_path_join input_dir ''*.json'')) json_glob) (\<lambda>json_files.
        if length wav_files \<noteq> 1 \<or> length json_files \<noteq> 1 then
          and_then (logged ERROR (''Expected exactly 1 WAV and 1 JSON file, found ''
                  @ str_nat (length wav_files) @ '' WAV and ''
                  @ str_nat (length json_files) @ '' JSON files'')) (\<lambda>_.
          ret (None, None))
        else ret (Some (hd wav_files), Some (hd json_files)))))
       (\<lambda>e. and_then (logged ERROR (''Error finding audio pair: '' @ e)) (\<lambda>_. ret (None, None)))"

subsection \<open>create_compressed_archive and extraction\<close>

text \<open>
  \<open>read\<close> is the world's answer to reading a local file while it is added to the
  archive. Directories are not modelled: every path names a plain file or nothing.
\<close>

fun add_files :: "(string \<Rightarrow> string outcome) \<Rightarrow> string list \<Rightarrow> tarball \<Rightarrow> tarball act" where
  "add_files read [] tar t = (Returned tar, t)"
| "add_files read (file_path # files) tar t =
     (case read file_path of
        Returned data \<Rightarrow>
          add_files read files (tar @ [(basename file_path, data)])
            (t @ [TarAdd file_path (basename file_path)])
      | Raised e \<Rightarrow> (Raised e, t @ [TarAdd file_path (basename file_path)])
      | Interrupted \<Rightarrow> (Interrupted, t @ [TarAdd file_path (basename file_path)]))"

definition create_compressed_archive ::
  "unit outcome \<Rightarrow> (string \<Rightarrow> string outcome) \<Rightarrow> string list \<Rightarrow> string \<Rightarrow> string option act" where
  "create_compressed_archive opened read files archive_name =
     except_Exception
       (and_then (call (TarOpen archive_name) opened) (\<lambda>_.
        and_then (add_files read files []) (\<lambda>tar.
        and_then (call (TarClose archive_name tar) (Returned ())) (\<lambda>_.
        ret (Some archive_name)))))
       (\<lambda>e. and_then (logged ERROR (''Error creating archive: '' @ e)) (\<lambda>_. ret None))"

definition extractall :: "tarball \<Rightarrow> string \<Rightarrow> (string \<times> string) list" where
  \<comment> \<open>\<^verbatim>\<open>tar.extractall(path=dest)\<close>: each member is written below \<open>dest\<close> under its
      archive name\<close>
  "extractall tar dest = map (\<lambda>(name, data). (os_path_join dest name, data)) tar"

subsection \<open>execute_gpu_service\<close>

record launch_world =
  timestamp :: string                          \<comment> \<open>\<^verbatim>\<open>time.strftime("%Y%m%d_%H%M%S")\<close>\<close>
  tar_opened :: "unit outcome"                 \<comment> \<open>opening the local archive for writing\<close>
  read_file :: "string \<Rightarrow> string outcome"      \<comment> \<open>reading an input file into the archive\<close>
  setup_run :: "string outcome"                \<comment> \<open>\<^verbatim>\<open>mkdir -p\<close> on the remote side\<close>
  upload_run :: "string outcome"               \<comment> \<open>\<^verbatim>\<open>rsync\<close> of the archive\<close>
  unpack_run :: "string outcome"               \<comment> \<open>\<^verbatim>\<open>tar xzf\<close> on the remote side\<close>
  start_run :: "string outcome"                \<comment> \<open>starting \<^verbatim>\<open>gpu_service.py\<close> in the background\<close>
  remove_archive :: "unit outcome"             \<comment> \<open>\<^verbatim>\<open>os.remove(archive_path)\<close>\<close>

definition work_dir_of :: "config \<Rightarrow> string \<Rightarrow> string" where
  "work_dir_of cfg ts = remote_path cfg @ ''/work_'' @ ts"

definition archive_name_of :: "string \<Rightarrow> string" where
  "archive_name_of ts = ''input_'' @ ts @ ''.tar.gz''"

definition execute_cmd :: "string \<Rightarrow> string \<Rightarrow> string \<Rightarrow> string" where
  "execute_cmd work_dir wav_file json_file =
     ''cd '' @ work_dir @ '' && ''
     @ ''python3 /wylder-whisper-vast-fastapi/gpu_service.py ''
     @ ''--wav '' @ basename wav_file @ '' ''
     @ ''--json '' @ basename json_file @ '' ''
     @ ''--work_dir '' @ work_dir @ '' ''
     @ ''> process.log 2>&1 & ''
     @ ''echo $!''"

definition execute_gpu_service ::
  "config \<Rightarrow> launch_world \<Rightarrow> string \<Rightarrow> string \<Rightarrow> string \<Rightarrow> string option act" where
  "execute_gpu_service cfg w input_dir wav_file json_file =
     except_Exception
       (let work_dir = work_dir_of cfg (timestamp w);
            archive_name = archive_name_of (timestamp w);
            archive_path = os_path_join input_dir archive_name
        in
        and_then (create_compressed_archive (tar_opened w) (read_file w)
                    [wav_file, json_file] archive_path) (\<lambda>created.
        if created = None \<or> created = Some [] then raise ''Failed to create archive'' else
        and_then (run_checked (ssh cfg (py_join '' && '' [''mkdir -p '' @ work_dir, ''cd '' @ work_dir]))
                    (setup_run w)) (\<lambda>_.
        and_then (run_checked [''rsync'', ''-avz'', ''--progress'', ''-e'', ''ssh -p '' @ port cfg,
                               archive_path, host cfg @ '':'' @ work_dir @ ''/'']
                    (upload_run w)) (\<lambda>_.
        and_then (run_checked (ssh cfg (''cd '' @ work_dir @ '' && tar xzf '' @ archive_name))
                    (unpack_run w)) (\<lambda>_.
        and_then (run_checked (ssh cfg (execute_cmd work_dir wav_file json_file))
                    (start_run w)) (\<lambda>_.
        and_then (call (Remove archive_path) (remove_archive w)) (\<lambda>_.
        ret (Some work_dir))))))))
       (\<lambda>e. and_then (logged ERROR (''Error in execute_gpu_service: '' @ e)) (\<lambda>_. ret None))"

subsection \<open>monitor_process\<close>

record poll_world =
  tail_run :: "(int \<times> string) outcome"     \<comment> \<open>\<^verbatim>\<open>tail -n 1 .../process.log\<close>\<close>
  marker_run :: "(int \<times> string) outcome"   \<comment> \<open>\<^verbatim>\<open>test -f .../COMPLETED\<close>\<close>
  poll_sleep :: "unit outcome"                \<comment> \<open>\<^verbatim>\<open>time.sleep(5)\<close>\<close>

text \<open>
  One pass through the body of \<^verbatim>\<open>while True\<close>: \<open>Returned True\<close> is the
  \<^verbatim>\<open>return True\<close> of the loop, \<open>Returned False\<close> means that the body ran to its
  end and the loop goes round again.
\<close>

definition poll_once :: "config \<Rightarrow> string \<Rightarrow> poll_world \<Rightarrow> bool act" where
  "poll_once cfg work_dir pw =
     and_then (run_unchecked (ssh cfg (''tail -n 1 '' @ work_dir @ ''/process.log'')) (tail_run pw)) (\<lambda>_.
     and_then (run_unchecked (ssh cfg (''test -f '' @ work_dir @ ''/COMPLETED'')) (marker_run pw)) (\<lambda>result.
     if fst result = 0 then
       and_then (logged INFO ''Processing completed successfully'') (\<lambda>_. ret True)
     else
       and_then (call (Sleep 5) (poll_sleep pw)) (\<lambda>_. ret False)))"

text \<open>
  The loop has no bound: when the marker never appears and nothing fails, it does not
  return, and \<open>monitor_loop\<close> is \<open>None\<close>.
\<close>

partial_function (option) monitor_loop ::
  "config \<Rightarrow> string \<Rightarrow> (nat \<Rightarrow> poll_world) \<Rightarrow> nat \<Rightarrow> trace \<Rightarrow> (bool outcome \<times> trace) option" where
  "monitor_loop cfg work_dir w i t =
     (case poll_once cfg work_dir (w i) t of
        (Returned finished, t') \<Rightarrow>
          if finished then Some (Returned True, t') else monitor_loop cfg work_dir w (Suc i) t'
      | (Raised e, t') \<Rightarrow> Some (Raised e, t')
      | (Interrupted, t') \<Rightarrow> Some (Interrupted, t'))"

declare monitor_loop.simps [code]

definition monitor_process ::
  "config \<Rightarrow> string \<Rightarrow> (nat \<Rightarrow> poll_world) \<Rightarrow> trace \<Rightarrow> (bool \<times> trace) option" where
  "monitor_process cfg work_dir w t =
     (case monitor_loop cfg work_dir w 0 t of
        None \<Rightarrow> None
      | Some (Returned b, t') \<Rightarrow> Some (b, t')
      | Some (Interrupted, t') \<Rightarrow>
          Some (False, t' @ [Logged INFO ''Monitoring interrupted by user''])
      | Some (Raised e, t') \<Rightarrow>
          Some (False, t' @ [Logged ERROR (''Error monitoring process: '' @ e)]))"

subsection \<open>retrieve_results\<close>

record attempt_world =
  backoff_sleep :: "unit outcome"          \<comment> \<open>\<^verbatim>\<open>time.sleep(attempt * 2)\<close>\<close>
  archive_run :: "string outcome"          \<comment> \<open>building \<^verbatim>\<open>results.tar.gz\<close> on the remote side\<close>
  download_run :: "string outcome"         \<comment> \<open>\<^verbatim>\<open>rsync\<close> of the result archive\<close>
  tar_read :: "tarball outcome"            \<comment> \<open>opening the downloaded archive and extracting it\<close>
  listing :: "string list outcome"         \<comment> \<open>\<^verbatim>\<open>os.listdir(transcripts_dir)\<close>\<close>
  remove_local :: "unit outcome"           \<comment> \<open>\<^verbatim>\<open>os.remove(local_archive)\<close>\<close>
  cleanup_run :: "string outcome"          \<comment> \<open>\<^verbatim>\<open>rm -rf\<close> of the remote work directory\<close>

record retrieve_world =
  makedirs :: "unit outcome"
  initial_sleep :: "unit outcome"
  attempts :: "nat \<Rightarrow> attempt_world"

definition remote_archive :: string where
  "remote_archive = ''results.tar.gz''"

definition create_archive_cmd :: "string \<Rightarrow> string \<Rightarrow> string \<Rightarrow> string" where
  "create_archive_cmd work_dir wav_name json_name =
     ''cd '' @ work_dir @ '' && ''
     @ ''sleep 2 && ''
     @ ''tar czf '' @ remote_archive @ '' ''
     @ ''--exclude='' @ apostrophe @ wav_name @ apostrophe @ '' ''
     @ ''--exclude='' @ apostrophe @ json_name @ apostrophe @ '' ''
     @ ''--exclude='' @ apostrophe @ ''process.log'' @ apostrophe @ '' ''
     @ ''--exclude='' @ apostrophe @ ''COMPLETED'' @ apostrophe @ '' ''
     @ ''--exclude='' @ apostrophe @ ''input_*.tar.gz'' @ apostrophe @ '' ''
     @ ''--exclude='' @ apostrophe @ ''*.log'' @ apostrophe @ '' ''
     @ ''transcript_* && ''
     @ ''test -s '' @ remote_archive"

definition expected_files :: "string list" where
  "expected_files = [''transcript_detailed'', ''transcript_conversation'', ''transcript_'']"

definition found_files :: "string list \<Rightarrow> string list" where
  \<comment> \<open>\<^verbatim>\<open>[f for f in os.listdir(...) if any(exp in f for exp in expected_files)]\<close>\<close>
  "found_files names = filter (\<lambda>f. list_ex (\<lambda>exp. sublist exp f) expected_files) names"

definition retrieve_attempt ::
  "config \<Rightarrow> attempt_world \<Rightarrow> string \<Rightarrow> string \<Rightarrow> string \<Rightarrow> string \<Rightarrow> nat \<Rightarrow> bool act" where
  "retrieve_attempt cfg aw work_dir transcripts_dir wav_name json_name attempt =
     and_then (if attempt > 0 then call (Sleep (attempt * 2)) (backoff_sleep aw) else ret ()) (\<lambda>_.
     and_then (logged INFO (''Creating remote archive, excluding: '' @ wav_name @ '', '' @ json_name)) (\<lambda>_.
     and_then (run_checked (ssh cfg (create_archive_cmd work_dir wav_name json_name))
                 (archive_run aw)) (\<lambda>_.
     let local_archive = os_path_join transcripts_dir remote_archive in
     and_then (run_checked [''rsync'', ''-avz'', ''--progress'', ''-e'', ''ssh -p '' @ port cfg,
                            host cfg @ '':'' @ work_dir @ ''/'' @ remote_archive, local_archive]
                 (download_run aw)) (\<lambda>_.
     and_then (call (TarOpen local_archive) (tar_read aw)) (\<lambda>tar.
     and_then (call (TarExtract (map fst (extractall tar transcripts_dir))) (Returned ())) (\<lambda>_.
     and_then (call (Listdir transcripts_dir) (listing aw)) (\<lambda>names.
     if found_files names = [] then raise ''No transcript files found in the extracted archive'' else
     and_then (logged INFO (''Successfully extracted files: '' @ py_join '', '' (found_files names))) (\<lambda>_.
     and_then (call (Remove local_archive) (remove_local aw)) (\<lambda>_.
     and_then (if \<not> config_get_keep_remote cfg
               then and_then (run_checked (ssh cfg (''rm -rf '' @ work_dir)) (cleanup_run aw)) (\<lambda>_. ret ())
               else ret ()) (\<lambda>_.
     ret True))))))))))"

text \<open>
  The loop \<^verbatim>\<open>for attempt in range(max_retries)\<close> with its inner
  \<^verbatim>\<open>try ... except Exception\<close>. When the range is empty the function falls off its
  end and Python returns \<^verbatim>\<open>None\<close>: that is \<open>Returned None\<close> here.
  \<open>max_retries\<close> and \<open>initial_delay\<close> are natural numbers: \<open>main\<close> calls the
  function with the defaults 3 and 5, and a negative delay is not modelled.
\<close>

function retrieve_loop ::
  "config \<Rightarrow> (nat \<Rightarrow> attempt_world) \<Rightarrow> string \<Rightarrow> string \<Rightarrow> string \<Rightarrow> string \<Rightarrow> nat \<Rightarrow> nat
     \<Rightarrow> bool option act" where
  "retrieve_loop cfg w work_dir transcripts_dir wav_name json_name max_retries attempt t =
     (if attempt < max_retries then
        (case retrieve_attempt cfg (w attempt) work_dir transcripts_dir wav_name json_name attempt t of
           (Returned b, t') \<Rightarrow> (Returned (Some b), t')
         | (Raised e, t') \<Rightarrow>
             if attempt = max_retries - 1 then
               (Raised (''Failed after '' @ str_nat max_retries @ '' attempts: '' @ e), t')
             else
               retrieve_loop cfg w work_dir transcripts_dir wav_name json_name max_retries (Suc attempt)
                 (t' @ [Logged WARNING (''Attempt '' @ str_nat (attempt + 1) @ '' failed: '' @ e)])
         | (Interrupted, t') \<Rightarrow> (Interrupted, t'))
      else (Returned None, t))"
  by pat_completeness auto
termination
  by (relation "measure (\<lambda>(cfg, w, work_dir, transcripts_dir, wav_name, json_name, max_retries, attempt, t).
                  max_retries - attempt)") auto

declare retrieve_loop.simps [simp del]

definition retrieve_results ::
  "config \<Rightarrow> retrieve_world \<Rightarrow> string \<Rightarrow> string \<Rightarrow> string \<times> string \<Rightarrow> nat \<Rightarrow> nat
     \<Rightarrow> bool option act" where
  "retrieve_results cfg w work_dir local_dir original_files max_retries initial_delay =
     except_Exception
       (let transcripts_dir = os_path_join local_dir ''transcripts'' in
        and_then (call (Makedirs transcripts_dir) (makedirs w)) (\<lambda>_.
        let wav_name = basename (fst original_files);
            json_name = basename (snd original_files) in
        and_then (call (Sleep initial_delay) (initial_sleep w)) (\<lambda>_.
        retrieve_loop cfg (attempts w) work_dir transcripts_dir wav_name json_name max_retries 0)))
       (\<lambda>e. and_then (logged ERROR (''Error retrieving results: '' @ e)) (\<lambda>_. ret (Some False)))"

subsection \<open>main\<close>

record args =
  arg_input :: string          \<comment> \<open>the positional argument \<^verbatim>\<open>input\<close>\<close>
  arg_config :: string         \<comment> \<open>\<^verbatim>\<open>--config\<close>\<close>
  arg_keep_remote :: bool      \<comment> \<open>\<^verbatim>\<open>--keep-remote\<close>\<close>

record world =
  isdir :: bool                               \<comment> \<open>\<^verbatim>\<open>os.path.isdir(args.input)\<close>\<close>
  config_file :: config_file                  \<comment> \<open>what is found under \<^verbatim>\<open>args.config\<close>\<close>
  logging_setup :: "unit outcome"             \<comment> \<open>creating the directory \<^verbatim>\<open>logs\<close>\<close>
  connection :: "(int \<times> string) outcome"     \<comment> \<open>the connection test\<close>
  wav_glob :: "string list outcome"           \<comment> \<open>\<^verbatim>\<open>glob.glob(input/*.wav)\<close>\<close>
  json_glob :: "string list outcome"          \<comment> \<open>\<^verbatim>\<open>glob.glob(input/*.json)\<close>\<close>
  launch :: launch_world
  polls :: "nat \<Rightarrow> poll_world"
  retrieval :: retrieve_world

text \<open>The message that \<^verbatim>\<open>main\<close> prints last tells on which branch it ended.\<close>

datatype main_exit =
    NotADirectory                  \<comment> \<open>"Input path must be a directory"\<close>
  | ConnectionFailed               \<comment> \<open>"Failed to connect to vast.ai"\<close>
  | NoValidPair                    \<comment> \<open>"Could not find valid WAV/JSON pair in input directory"\<close>
  | StartFailed                    \<comment> \<open>"Failed to start GPU processing"\<close>
  | ProcessingFailedOrInterrupted  \<comment> \<open>"Processing failed or was interrupted"\<close>
  | RetrieveFailed                 \<comment> \<open>"Failed to retrieve results"\<close>
  | ResultsRetrieved               \<comment> \<open>"Results retrieved successfully!"\<close>
  | InterruptedByUser              \<comment> \<open>"Process interrupted by user"\<close>
  | UnexpectedError string         \<comment> \<open>"Error: ..."\<close>

definition GPUController :: "string \<Rightarrow> world \<Rightarrow> config act" where
  "GPUController config_name w =
     and_then (load_config config_name (config_file w)) (\<lambda>cfg.
     and_then (call (Makedirs ''logs'') (logging_setup w)) (\<lambda>_.
     ret cfg))"

text \<open>
  \<^verbatim>\<open>main\<close> up to the start of the remote job: either the branch on which it
  returns early, or the controller, the two input files and the work directory.
\<close>

definition main_launch :: "args \<Rightarrow> world \<Rightarrow> (main_exit + config \<times> string \<times> string \<times> string) act" where
  "main_launch a w =
     and_then (GPUController (arg_config a) w) (\<lambda>controller.
     and_then (verify_connection controller (connection w)) (\<lambda>connected.
     if \<not> connected then ret (Inl ConnectionFailed) else
     and_then (find_audio_pair (arg_input a) (wav_glob w) (json_glob w)) (\<lambda>pair.
     case pair of
       (Some wav_file, Some json_file) \<Rightarrow>
         if wav_file = [] \<or> json_file = [] then ret (Inl NoValidPair) else
         and_then (execute_gpu_service controller (launch w) (arg_input a) wav_file json_file) (\<lambda>started.
         case started of
           None \<Rightarrow> ret (Inl StartFailed)
         | Some work_dir \<Rightarrow>
             if work_dir = [] then ret (Inl StartFailed)
             else ret (Inr (controller, wav_file, json_file, work_dir)))
     | _ \<Rightarrow> ret (Inl NoValidPair))))"

definition main :: "args \<Rightarrow> world \<Rightarrow> (main_exit \<times> trace) option" where
  "main a w =
     (if \<not> isdir w then Some (NotADirectory, [])
      else
        case main_launch a w [] of
          (Interrupted, t) \<Rightarrow> Some (InterruptedByUser, t)
        | (Raised e, t) \<Rightarrow> Some (UnexpectedError e, t @ [Logged ERROR (''Unexpected error: '' @ e)])
        | (Returned (Inl early), t) \<Rightarrow> Some (early, t)
        | (Returned (Inr (controller, wav_file, json_file, work_dir)), t) \<Rightarrow>
            (case monitor_process controller work_dir (polls w) t of
               None \<Rightarrow> None
             | Some (completed, t') \<Rightarrow>
                 if completed then
                   (case retrieve_results controller (retrieval w) work_dir (arg_input a)
                           (wav_file, json_file) 3 5 t' of
                      (Returned r, t'') \<Rightarrow>
                        Some (if r = Some True then ResultsRetrieved else RetrieveFailed, t'')
                    | (Raised e, t'') \<Rightarrow>
                        Some (UnexpectedError e, t'' @ [Logged ERROR (''Unexpected error: '' @ e)])
                    | (Interrupted, t'') \<Rightarrow> Some (InterruptedByUser, t''))
                 else Some (ProcessingFailedOrInterrupted, t')))"

subsection \<open>Reading the trace\<close>

fun runs :: "trace \<Rightarrow> string list list" where
  \<comment> \<open>the command lines given to \<^verbatim>\<open>subprocess.run\<close>, in order\<close>
  "runs [] = []"
| "runs (Run argv # t) = argv # runs t"
| "runs (_ # t) = runs t"

fun is_sleep :: "event \<Rightarrow> bool" where
  "is_sleep (Sleep n) = True"
| "is_sleep _ = False"

text \<open>
  An act only appends: its outcome does not depend on the trace it is started with,
  and it leaves that trace in place, adding its own events behind it.
\<close>

definition appends :: "'a act \<Rightarrow> bool" where
  "appends m = (\<forall>t. m t = (fst (m []), t @ snd (m [])))"

definition outcome_of :: "'a act \<Rightarrow> 'a outcome" where
  \<comment> \<open>how the act ends\<close>
  "outcome_of m = fst (m [])"

definition events_of :: "'a act \<Rightarrow> trace" where
  \<comment> \<open>the events the act adds to the trace\<close>
  "events_of m = snd (m [])"

subsection \<open>Example worlds\<close>

definition demo_read :: "string \<Rightarrow> string outcome" where
  "demo_read p =
     (if p = ''/data/in/deep/meeting.wav'' then Returned ''RIFF''
      else if p = ''meeting.json'' then Returned ''{}''
      else Raised ''No such file'')"

definition demo_config :: config where
  "demo_config = \<lparr>host = ''10.0.0.5'', port = ''22'', remote_path = ''/remote/work'', keep_remote = None\<rparr>"

definition demo_args :: args where
  "demo_args = \<lparr>arg_input = ''in'', arg_config = ''vast_config.json'', arg_keep_remote = True\<rparr>"

definition demo_launch :: launch_world where
  "demo_launch =
     \<lparr>timestamp = ''20240101_120000'', tar_opened = Returned (), read_file = (\<lambda>p. Returned ''data''),
      setup_run = Returned [], upload_run = Returned [], unpack_run = Returned [],
      start_run = Returned ''4242'', remove_archive = Returned ()\<rparr>"

definition demo_poll_waiting :: poll_world where
  "demo_poll_waiting =
     \<lparr>tail_run = Returned (0, ''working''), marker_run = Returned (1, []), poll_sleep = Returned ()\<rparr>"

definition demo_poll_done :: poll_world where
  "demo_poll_done =
     \<lparr>tail_run = Returned (0, ''done''), marker_run = Returned (0, []), poll_sleep = Returned ()\<rparr>"

definition demo_attempt :: attempt_world where
  "demo_attempt =
     \<lparr>backoff_sleep = Returned (), archive_run = Returned [], download_run = Returned [],
      tar_read = Returned [(''transcript_20240101_120500.txt'', ''hello'')],
      listing = Returned [''results.tar.gz'', ''transcript_20240101_120500.txt''],
      remove_local = Returned (), cleanup_run = Returned []\<rparr>"


definition demo_retrieval :: retrieve_world where
  "demo_retrieval = \<lparr>makedirs = Returned (), initial_sleep = Returned (), attempts = (\<lambda>_. demo_attempt)\<rparr>"

definition demo_world :: world where
  "demo_world =
     \<lparr>isdir = True,
      config_file = Json \<lparr>raw_host = Some ''10.0.0.5'', raw_port = Some ''22'',
                          raw_remote_path = Some ''/remote/work'', raw_keep_remote = None\<rparr>,
      logging_setup = Returned (),
      connection = Returned (0, ''Connection test''),
      wav_glob = Returned [''in/meeting.wav''],
      json_glob = Returned [''in/meeting.json''],
      launch = demo_launch,
      polls = (\<lambda>i. if i < 1 then demo_poll_waiting else demo_poll_done),
      retrieval = demo_retrieval\<rparr>"

definition demo_attempts_failing :: "nat \<Rightarrow> attempt_world" where
  \<comment> \<open>the remote archive cannot be built, then the download fails, then the archive
      that arrives holds no transcript\<close>
  "demo_attempts_failing k =
     (if k = 0 then demo_attempt\<lparr>archive_run := Raised ''tar failed''\<rparr>
      else if k = 1 then demo_attempt\<lparr>download_run := Raised ''rsync failed''\<rparr>
      else demo_attempt\<lparr>tar_read := Returned [], listing := Returned [''results.tar.gz'']\<rparr>)"

definition demo_retrieval_failing :: retrieve_world where
  "demo_retrieval_failing = demo_retrieval\<lparr>attempts := demo_attempts_failing\<rparr>"

definition demo_attempts_cleanup_lost :: "nat \<Rightarrow> attempt_world" where
  \<comment> \<open>the first attempt gets as far as \<^verbatim>\<open>rm -rf\<close>, whose \<^verbatim>\<open>ssh\<close> ends with a
      nonzero status; afterwards the work directory is gone\<close>
  "demo_attempts_cleanup_lost k =
     (if k = 0 then demo_attempt\<lparr>cleanup_run := Raised ''ssh: exit status 255''\<rparr>
      else demo_attempt\<lparr>archive_run := Raised ''cd: exit status 1''\<rparr>)"

definition demo_retrieval_cleanup_lost :: retrieve_world where
  "demo_retrieval_cleanup_lost = demo_retrieval\<lparr>attempts := demo_attempts_cleanup_lost\<rparr>"

section \<open>Properties\<close>

lemmas act_defs = ret_def raise_def and_then_def except_Exception_def call_def logged_def
  run_checked_def run_unchecked_def

subsection \<open>Acts only append to the trace\<close>

lemma appendsD: "appends m \<Longrightarrow> m t = (fst (m []), t @ snd (m []))"
  unfolding appends_def by blast

lemma appends_ret [intro!]: "appends (ret v)"
  by (simp add: appends_def ret_def)

lemma appends_raise [intro!]: "appends (raise e)"
  by (simp add: appends_def raise_def)

lemma appends_call [intro!]: "appends (call ev r)"
  by (simp add: appends_def call_def)

lemma appends_logged [intro!]: "appends (logged l m)"
  by (simp add: logged_def appends_call)

lemma appends_run_checked [intro!]: "appends (run_checked argv r)"
  by (simp add: run_checked_def appends_call)

lemma appends_run_unchecked [intro!]: "appends (run_unchecked argv r)"
  by (simp add: run_unchecked_def appends_call)

lemma appends_and_then [intro!]:
  assumes m: "appends m" and f: "\<And>v. appends (f v)"
  shows "appends (and_then m f)"
  unfolding appends_def
proof
  fix t
  obtain r0 e0 where m0: "m [] = (r0, e0)" by (cases "m []")
  have mt: "m t = (r0, t @ e0)" using appendsD[OF m, of t] m0 by simp
  show "and_then m f t = (fst (and_then m f []), t @ snd (and_then m f []))"
  proof (cases r0)
    case (Returned v)
    then show ?thesis
      using m0 mt appendsD[OF f[of v], of "t @ e0"] appendsD[OF f[of v], of e0]
      by (simp add: and_then_def)
  qed (use m0 mt in \<open>simp_all add: and_then_def\<close>)
qed

lemma appends_except_Exception [intro!]:
  assumes m: "appends m" and h: "\<And>e. appends (h e)"
  shows "appends (except_Exception m h)"
  unfolding appends_def
proof
  fix t
  obtain r0 e0 where m0: "m [] = (r0, e0)" by (cases "m []")
  have mt: "m t = (r0, t @ e0)" using appendsD[OF m, of t] m0 by simp
  show "except_Exception m h t = (fst (except_Exception m h []), t @ snd (except_Exception m h []))"
  proof (cases r0)
    case (Raised e)
    then show ?thesis
      using m0 mt appendsD[OF h[of e], of "t @ e0"] appendsD[OF h[of e], of e0]
      by (simp add: except_Exception_def)
  qed (use m0 mt in \<open>simp_all add: except_Exception_def\<close>)
qed

lemma appends_if [intro!]: "appends a \<Longrightarrow> appends b \<Longrightarrow> appends (if c then a else b)"
  by simp

lemma appends_retrieve_attempt: "appends (retrieve_attempt cfg aw wd td wav json k)"
  unfolding retrieve_attempt_def Let_def by (intro appends_and_then appends_if allI) auto

lemma add_files_appends:
  "add_files read files tar t =
     (fst (add_files read files tar []), t @ snd (add_files read files tar []))"
proof (induction files arbitrary: tar t)
  case Nil
  show ?case by simp
next
  case (Cons p ps)
  show ?case
    by (cases "read p")
      (simp_all add: Cons[of _ "t @ [TarAdd p (basename p)]"] Cons[of _ "[TarAdd p (basename p)]"])
qed

lemma appends_add_files [intro!]: "appends (add_files read files tar)"
  unfolding appends_def using add_files_appends by blast

lemma appends_create_compressed_archive:
  "appends (create_compressed_archive opened read files name)"
  unfolding create_compressed_archive_def by (intro appends_except_Exception appends_and_then appends_add_files) auto

lemma appends_execute_gpu_service: "appends (execute_gpu_service cfg w d wav json)"
  unfolding execute_gpu_service_def Let_def
  by (intro appends_except_Exception appends_and_then appends_if appends_create_compressed_archive) auto

lemma retrieve_loop_step:
  "k < n \<Longrightarrow>
   retrieve_loop cfg w wd td wav json n k t =
     (case retrieve_attempt cfg (w k) wd td wav json k t of
        (Returned b, t') \<Rightarrow> (Returned (Some b), t')
      | (Raised e, t') \<Rightarrow>
          if k = n - 1 then (Raised (''Failed after '' @ str_nat n @ '' attempts: '' @ e), t')
          else retrieve_loop cfg w wd td wav json n (Suc k)
                 (t' @ [Logged WARNING (''Attempt '' @ str_nat (k + 1) @ '' failed: '' @ e)])
      | (Interrupted, t') \<Rightarrow> (Interrupted, t'))"
  by (subst retrieve_loop.simps) simp

lemma retrieve_loop_end:
  "\<not> k < n \<Longrightarrow> retrieve_loop cfg w wd td wav json n k t = (Returned None, t)"
  by (subst retrieve_loop.simps) simp

lemma retrieve_loop_appends:
  "retrieve_loop cfg w wd td wav json n k t =
     (fst (retrieve_loop cfg w wd td wav json n k []), t @ snd (retrieve_loop cfg w wd td wav json n k []))"
proof (induction "n - k" arbitrary: k t)
  case 0
  then show ?case by (simp add: retrieve_loop_end)
next
  case (Suc d)
  let ?a = "retrieve_attempt cfg (w k) wd td wav json k"
  obtain r0 e0 where a0: "?a [] = (r0, e0)" by (cases "?a []")
  have at: "?a t = (r0, t @ e0)"
    using appendsD[OF appends_retrieve_attempt, of cfg "w k" wd td wav json k t] a0 by simp
  have kn: "k < n" using Suc(2) by simp
  show ?case
  proof (cases r0)
    case (Raised e)
    show ?thesis
    proof (cases "k = n - 1")
      case True
      then show ?thesis using kn a0 at Raised by (simp add: retrieve_loop_step)
    next
      case False
      have d: "d = n - Suc k" using Suc(2) by simp
      show ?thesis
        using kn a0 at Raised False
          Suc(1)[OF d, of "t @ e0 @ [Logged WARNING (''Attempt '' @ str_nat (k + 1) @ '' failed: '' @ e)]"]
          Suc(1)[OF d, of "e0 @ [Logged WARNING (''Attempt '' @ str_nat (k + 1) @ '' failed: '' @ e)]"]
        by (simp add: retrieve_loop_step[of k n])
    qed
  qed (use kn a0 at in \<open>simp_all add: retrieve_loop_step[of k n]\<close>)
qed

lemma appends_retrieve_loop [intro!]: "appends (retrieve_loop cfg w wd td wav json n k)"
  unfolding appends_def using retrieve_loop_appends by blast

lemma appends_retrieve_results: "appends (retrieve_results cfg w wd ld orig n d)"
  unfolding retrieve_results_def Let_def by (intro appends_except_Exception appends_and_then) auto


lemma appends_run: "appends m \<Longrightarrow> m t = (outcome_of m, t @ events_of m)"
  unfolding appends_def outcome_of_def events_of_def by blast

lemma outcome_case_const [simp]:
  "(case x of Returned v \<Rightarrow> c | Raised e \<Rightarrow> c | Interrupted \<Rightarrow> c) = c"
  by (cases x) auto

lemma of_ret [simp]: "outcome_of (ret v) = Returned v" "events_of (ret v) = []"
  by (simp_all add: outcome_of_def events_of_def ret_def)

lemma of_raise [simp]: "outcome_of (raise e) = Raised e" "events_of (raise e) = []"
  by (simp_all add: outcome_of_def events_of_def raise_def)

lemma of_call [simp]: "outcome_of (call ev r) = r" "events_of (call ev r) = [ev]"
  by (simp_all add: outcome_of_def events_of_def call_def)

lemma of_logged [simp]: "outcome_of (logged l m) = Returned ()" "events_of (logged l m) = [Logged l m]"
  by (simp_all add: logged_def)

lemma of_run_checked [simp]:
  "outcome_of (run_checked argv r) = r" "events_of (run_checked argv r) = [Run argv]"
  by (simp_all add: run_checked_def)

lemma of_run_unchecked [simp]:
  "outcome_of (run_unchecked argv r) = r" "events_of (run_unchecked argv r) = [Run argv]"
  by (simp_all add: run_unchecked_def)

lemma outcome_of_and_then:
  assumes "appends m" "\<And>v. appends (f v)"
  shows "outcome_of (and_then m f) =
           (case outcome_of m of Returned v \<Rightarrow> outcome_of (f v)
            | Raised e \<Rightarrow> Raised e | Interrupted \<Rightarrow> Interrupted)"
  using appends_run[OF assms(1), of "[]"] appends_run[OF assms(2), of _ "events_of m"]
  by (auto simp: outcome_of_def and_then_def split: outcome.splits prod.splits)

lemma events_of_and_then:
  assumes "appends m" "\<And>v. appends (f v)"
  shows "events_of (and_then m f) =
           events_of m @ (case outcome_of m of Returned v \<Rightarrow> events_of (f v) | Raised e \<Rightarrow> [] | Interrupted \<Rightarrow> [])"
  using appends_run[OF assms(1), of "[]"] appends_run[OF assms(2), of _ "events_of m"]
  by (auto simp: events_of_def outcome_of_def and_then_def split: outcome.splits prod.splits)

lemma outcome_of_except:
  assumes "appends m" "\<And>e. appends (h e)"
  shows "outcome_of (except_Exception m h) =
           (case outcome_of m of Returned v \<Rightarrow> Returned v
            | Raised e \<Rightarrow> outcome_of (h e) | Interrupted \<Rightarrow> Interrupted)"
  using appends_run[OF assms(1), of "[]"] appends_run[OF assms(2), of _ "events_of m"]
  by (auto simp: outcome_of_def except_Exception_def split: outcome.splits prod.splits)

lemma events_of_except:
  assumes "appends m" "\<And>e. appends (h e)"
  shows "events_of (except_Exception m h) =
           events_of m @ (case outcome_of m of Returned v \<Rightarrow> [] | Raised e \<Rightarrow> events_of (h e) | Interrupted \<Rightarrow> [])"
  using appends_run[OF assms(1), of "[]"] appends_run[OF assms(2), of _ "events_of m"]
  by (auto simp: events_of_def outcome_of_def except_Exception_def split: outcome.splits prod.splits)


lemma and_then_Returned:
  assumes "appends m" "\<And>v. appends (f v)"
  shows "outcome_of (and_then m f) = Returned b \<longleftrightarrow>
           (\<exists>v. outcome_of m = Returned v \<and> outcome_of (f v) = Returned b)"
  by (simp add: outcome_of_and_then[OF assms] split: outcome.splits)

lemma and_then_Raised:
  assumes "appends m" "\<And>v. appends (f v)"
  shows "outcome_of (and_then m f) = Raised e \<longleftrightarrow>
           outcome_of m = Raised e \<or> (\<exists>v. outcome_of m = Returned v \<and> outcome_of (f v) = Raised e)"
  by (simp add: outcome_of_and_then[OF assms] split: outcome.splits)

lemma and_then_Interrupted:
  assumes "appends m" "\<And>v. appends (f v)"
  shows "outcome_of (and_then m f) = Interrupted \<longleftrightarrow>
           outcome_of m = Interrupted \<or> (\<exists>v. outcome_of m = Returned v \<and> outcome_of (f v) = Interrupted)"
  by (simp add: outcome_of_and_then[OF assms] split: outcome.splits)

lemma and_then_event:
  assumes "appends m" "\<And>v. appends (f v)"
  shows "x \<in> set (events_of (and_then m f)) \<longleftrightarrow>
           x \<in> set (events_of m) \<or> (\<exists>v. outcome_of m = Returned v \<and> x \<in> set (events_of (f v)))"
  by (auto simp add: events_of_and_then[OF assms] split: outcome.splits)

lemma and_then_all_events:
  assumes "appends m" "\<And>v. appends (f v)"
  shows "(\<forall>x\<in>set (events_of (and_then m f)). Q x) \<longleftrightarrow>
           (\<forall>x\<in>set (events_of m). Q x)
           \<and> (\<forall>v. outcome_of m = Returned v \<longrightarrow> (\<forall>x\<in>set (events_of (f v)). Q x))"
  by (auto simp add: and_then_event[OF assms])

lemma if_outcome:
  "outcome_of (if c then a else b) = r \<longleftrightarrow> (c \<and> outcome_of a = r) \<or> (\<not> c \<and> outcome_of b = r)"
  by simp

lemma if_event:
  "x \<in> set (events_of (if c then a else b)) \<longleftrightarrow>
     (c \<and> x \<in> set (events_of a)) \<or> (\<not> c \<and> x \<in> set (events_of b))"
  by simp

lemma if_all_events:
  "(\<forall>x\<in>set (events_of (if c then a else b)). Q x) \<longleftrightarrow>
     (c \<longrightarrow> (\<forall>x\<in>set (events_of a). Q x)) \<and> (\<not> c \<longrightarrow> (\<forall>x\<in>set (events_of b). Q x))"
  by simp

lemma case_outcome_Nil:
  "(case x of Returned v \<Rightarrow> f v | Raised e \<Rightarrow> [] | Interrupted \<Rightarrow> []) = []
     \<longleftrightarrow> (\<forall>v. x = Returned v \<longrightarrow> f v = [])"
  by (cases x) auto

lemmas appends_rules = appends_ret appends_raise appends_call appends_logged appends_run_checked
  appends_run_unchecked appends_and_then appends_except_Exception appends_add_files
  appends_retrieve_loop appends_if

lemmas chain = and_then_Returned and_then_Raised and_then_Interrupted and_then_event
  and_then_all_events if_outcome if_event if_all_events appends_rules


lemma except_Returned:
  assumes "appends m" "\<And>e. appends (h e)"
  shows "outcome_of (except_Exception m h) = Returned v \<longleftrightarrow>
           outcome_of m = Returned v \<or> (\<exists>e. outcome_of m = Raised e \<and> outcome_of (h e) = Returned v)"
  by (auto simp add: outcome_of_except[OF assms] split: outcome.splits)

lemma except_Raised:
  assumes "appends m" "\<And>e. appends (h e)"
  shows "outcome_of (except_Exception m h) = Raised x \<longleftrightarrow>
           (\<exists>e. outcome_of m = Raised e \<and> outcome_of (h e) = Raised x)"
  by (auto simp add: outcome_of_except[OF assms] split: outcome.splits)

lemma except_Interrupted:
  assumes "appends m" "\<And>e. appends (h e)"
  shows "outcome_of (except_Exception m h) = Interrupted \<longleftrightarrow>
           outcome_of m = Interrupted \<or> (\<exists>e. outcome_of m = Raised e \<and> outcome_of (h e) = Interrupted)"
  by (auto simp add: outcome_of_except[OF assms] split: outcome.splits)

lemma except_event:
  assumes "appends m" "\<And>e. appends (h e)"
  shows "x \<in> set (events_of (except_Exception m h)) \<longleftrightarrow>
           x \<in> set (events_of m) \<or> (\<exists>e. outcome_of m = Raised e \<and> x \<in> set (events_of (h e)))"
  by (auto simp add: events_of_except[OF assms] split: outcome.splits)

lemmas chain_except = except_Returned except_Raised except_Interrupted except_event

subsection \<open>Archives keep base names only\<close>

lemma add_files_names:
  "add_files read files tar t = (Returned tar', t') \<Longrightarrow> map fst tar' = map fst tar @ map basename files"
  by (induction files arbitrary: tar t) (auto split: outcome.splits)

lemma add_files_data:
  "add_files read files tar t = (Returned tar', t') \<Longrightarrow>
     map (Returned \<circ> snd) tar' = map (Returned \<circ> snd) tar @ map read files"
  by (induction files arbitrary: tar t) (auto split: outcome.splits)

lemma basename_no_slash: "CHR ''/'' \<notin> set (basename p)"
  unfolding basename_def using set_takeWhileD by fastforce

lemma takeWhile_no_slash:
  "CHR ''/'' \<notin> set n \<Longrightarrow> takeWhile (\<lambda>c. c \<noteq> CHR ''/'') (rev n) = rev n"
  by (auto simp: takeWhile_eq_all_conv)

lemma basename_flat: "CHR ''/'' \<notin> set n \<Longrightarrow> basename n = n"
  by (simp add: basename_def takeWhile_no_slash)

lemma basename_append_slash:
  "CHR ''/'' \<notin> set n \<Longrightarrow> basename (d @ ''/'' @ n) = n"
  by (simp add: basename_def takeWhile_tail takeWhile_no_slash)

lemma basename_os_path_join:
  assumes "CHR ''/'' \<notin> set n"
  shows "basename (os_path_join d n) = n"
proof -
  have np: "\<not> prefix ''/'' n" using assms by (cases n) auto
  show ?thesis
  proof (cases "d = [] \<or> suffix ''/'' d")
    case True
    then show ?thesis
    proof
      assume "d = []" then show ?thesis using np assms by (simp add: os_path_join_def basename_flat)
    next
      assume "suffix ''/'' d"
      then obtain d' where "d = d' @ ''/''" by (auto simp: suffix_def)
      then show ?thesis using np assms basename_append_slash[of n d'] by (simp add: os_path_join_def)
    qed
  next
    case False
    then show ?thesis using np assms basename_append_slash[of n d] by (simp add: os_path_join_def)
  qed
qed

text \<open>
  C7. When \<open>create_compressed_archive\<close> succeeds on a list of file paths, the archive it
  closes holds one member per path, named by the base name of the path and nothing
  else, whatever the depth of the path. Extracting that archive into a directory
  \<open>dest\<close> writes exactly the files \<open>dest/<base name>\<close>, in the same order and with
  the data that was read: the base names of the extracted files are the base names of
  the original list, and no directory structure is kept.
\<close>

theorem pack_unpack_basenames:
  assumes "create_compressed_archive opened read files archive_name t = (Returned (Some a), t')"
  shows "\<exists>tar. last t' = TarClose archive_name tar
           \<and> map fst tar = map basename files
           \<and> map fst (extractall tar dest) = map (\<lambda>f. os_path_join dest (basename f)) files
           \<and> map (basename \<circ> fst) (extractall tar dest) = map basename files
           \<and> map (Returned \<circ> snd) (extractall tar dest) = map read files"
proof -
  from assms obtain tar t1 where
    a: "add_files read files [] (t @ [TarOpen archive_name]) = (Returned tar, t1)"
    and t': "t' = t1 @ [TarClose archive_name tar]"
    unfolding create_compressed_archive_def act_defs
    by (auto split: outcome.splits prod.splits)
  from add_files_names[OF a] have n: "map fst tar = map basename files" by simp
  from add_files_data[OF a] have d: "map (Returned \<circ> snd) tar = map read files" by simp
  have e: "map fst (extractall tar dest) = map (os_path_join dest) (map fst tar)"
    unfolding extractall_def by (induction tar) auto
  have e2: "map (Returned \<circ> snd) (extractall tar dest) = map (Returned \<circ> snd) tar"
    unfolding extractall_def by (induction tar) auto
  have b: "map (basename \<circ> fst) (extractall tar dest) = map basename (map fst (extractall tar dest))"
    by simp
  show ?thesis
    apply (rule exI[of _ tar])
    unfolding b e n e2 d using t'
    by (simp add: basename_os_path_join basename_no_slash comp_def)
qed

theorem pack_unpack_basenames_witness:
  "create_compressed_archive (Returned ()) demo_read
      [''/data/in/deep/meeting.wav'', ''meeting.json''] ''input.tar.gz'' []
     = (Returned (Some ''input.tar.gz''),
        [TarOpen ''input.tar.gz'',
         TarAdd ''/data/in/deep/meeting.wav'' ''meeting.wav'',
         TarAdd ''meeting.json'' ''meeting.json'',
         TarClose ''input.tar.gz'' [(''meeting.wav'', ''RIFF''), (''meeting.json'', ''{}'')]])
   \<and> map fst (extractall [(''meeting.wav'', ''RIFF''), (''meeting.json'', ''{}'')] ''/remote/work'')
       = [''/remote/work/meeting.wav'', ''/remote/work/meeting.json'']"
  using pack_unpack_basenames[of "Returned ()" demo_read
      "[''/data/in/deep/meeting.wav'', ''meeting.json'']" "''input.tar.gz''" "[]" "''input.tar.gz''"
      _ "''/remote/work''"]
  by (simp add: create_compressed_archive_def act_defs demo_read_def basename_def extractall_def
        os_path_join_def suffix_to_prefix)

lemmas demo_defs = demo_config_def demo_args_def demo_launch_def demo_poll_waiting_def
  demo_poll_done_def demo_attempt_def demo_retrieval_def demo_world_def

lemma runs_append [simp]: "runs (t @ u) = runs t @ runs u"
  by (induction t rule: runs.induct) auto

subsection \<open>Input discovery\<close>

text \<open>
  C10. When the input directory does not hold exactly one \<^verbatim>\<open>*.wav\<close> file and exactly
  one \<^verbatim>\<open>*.json\<close> file, \<open>find_audio_pair\<close> returns \<open>(None, None)\<close>, and a run
  of \<open>main\<close> that got as far as the search ends on the branch "no valid pair": the
  only remote command it has issued is the connection test.
\<close>

theorem no_pair_unless_exactly_one_wav_and_json:
  assumes globs: "wav_glob w = Returned wavs" "json_glob w = Returned jsons"
      and count: "length wavs \<noteq> 1 \<or> length jsons \<noteq> 1"
      and up: "isdir w" "GPUController (arg_config a) w [] = (Returned cfg, t0)"
              "connection w = Returned (0, out)"
  shows "fst (find_audio_pair (arg_input a) (wav_glob w) (json_glob w) t) = Returned (None, None)
       \<and> (\<exists>t'. main a w = Some (NoValidPair, t')
                \<and> runs t' = [ssh cfg ''echo \"Connection test\"''])"
proof -
  have pair: "\<And>t. \<exists>t'. find_audio_pair (arg_input a) (wav_glob w) (json_glob w) t = (Returned (None, None), t')
                    \<and> runs t' = runs t"
    using globs count by (auto simp: find_audio_pair_def act_defs)
  have t0: "runs t0 = []"
    using up(2) by (auto simp: GPUController_def load_config_def act_defs
        split: config_file.splits option.splits outcome.splits prod.splits)
  obtain t1 where conn: "verify_connection cfg (connection w) t0 = (Returned True, t1)"
      and t1: "runs t1 = [ssh cfg ''echo \"Connection test\"'']"
    using up(3) t0 by (simp add: verify_connection_def act_defs)
  from pair[of t1] obtain t2 where
    p2: "find_audio_pair (arg_input a) (wav_glob w) (json_glob w) t1 = (Returned (None, None), t2)"
    and t2: "runs t2 = runs t1" by blast
  have "main_launch a w [] = (Returned (Inl NoValidPair), t2)"
    using up(2) conn p2 by (simp add: main_launch_def and_then_def ret_def)
  then have "main a w = Some (NoValidPair, t2)"
    using up(1) by (simp add: main_def)
  with t1 t2 pair[of t] show ?thesis by auto
qed

theorem no_pair_unless_exactly_one_wav_and_json_witness:
  "main demo_args (demo_world\<lparr>wav_glob := Returned [''in/a.wav'', ''in/b.wav'']\<rparr>) =
     Some (NoValidPair,
       [Makedirs ''logs'',
        Run [''ssh'', ''-p'', ''22'', ''10.0.0.5'', ''echo \"Connection test\"''],
        Glob ''in/*.wav'', Glob ''in/*.json'',
        Logged ERROR ''Expected exactly 1 WAV and 1 JSON file, found 2 WAV and 1 JSON files''])"
  using no_pair_unless_exactly_one_wav_and_json[of
      "demo_world\<lparr>wav_glob := Returned [''in/a.wav'', ''in/b.wav'']\<rparr>"
      "[''in/a.wav'', ''in/b.wav'']" "[''in/meeting.json'']" demo_args demo_config "[Makedirs ''logs'']"
      "''Connection test''" "[]"]
  by (simp add: demo_defs main_def main_launch_def GPUController_def load_config_def
        verify_connection_def find_audio_pair_def act_defs ssh_def os_path_join_def
        suffix_to_prefix str_nat.simps digit_char_def)

subsection \<open>Launch\<close>

lemma add_files_events:
  "x \<in> set (snd (add_files read files tar t)) \<Longrightarrow> x \<in> set t \<or> (\<exists>p. x = TarAdd p (basename p))"
proof (induction files arbitrary: tar t)
  case Nil
  then show ?case by simp
next
  case (Cons p ps)
  show ?case
  proof (cases "read p")
    case (Returned data)
    with Cons.prems Cons.IH[of "tar @ [(basename p, data)]" "t @ [TarAdd p (basename p)]"]
    show ?thesis by auto
  qed (use Cons.prems in auto)
qed

lemma create_compressed_archive_event:
  assumes "x \<in> set (events_of (create_compressed_archive opened read files name))"
  shows "x = TarOpen name \<or> (\<exists>p. x = TarAdd p (basename p)) \<or> (\<exists>tar. x = TarClose name tar)
       \<or> (\<exists>m. x = Logged ERROR m)"
  using assms add_files_events[of x read files "[]" "[]"]
  unfolding create_compressed_archive_def
  by (auto simp add: chain chain_except events_of_def[of "add_files read files []"])

lemma create_compressed_archive_Some:
  "outcome_of (create_compressed_archive opened read files name) = Returned (Some a) \<Longrightarrow> a = name"
  unfolding create_compressed_archive_def
  by (auto simp add: chain chain_except)

lemma create_compressed_archive_not_Raised:
  "outcome_of (create_compressed_archive opened read files name) \<noteq> Raised e"
  unfolding create_compressed_archive_def
  by (auto simp add: chain chain_except)

lemma archive_path_nonempty: "os_path_join d (archive_name_of ts) \<noteq> []"
  by (simp add: os_path_join_def archive_name_of_def)

lemma execute_gpu_service_Remove:
  "Remove (os_path_join d (archive_name_of (timestamp w)))
     \<in> set (events_of (execute_gpu_service cfg w d wav json)) \<longleftrightarrow>
   outcome_of (create_compressed_archive (tar_opened w) (read_file w) [wav, json]
                 (os_path_join d (archive_name_of (timestamp w))))
     = Returned (Some (os_path_join d (archive_name_of (timestamp w))))
   \<and> (\<exists>x. setup_run w = Returned x) \<and> (\<exists>x. upload_run w = Returned x)
   \<and> (\<exists>x. unpack_run w = Returned x) \<and> (\<exists>x. start_run w = Returned x)"
  (is "?r \<in> set (events_of ?E) \<longleftrightarrow> ?c = Returned (Some ?ap) \<and> ?rest")
proof -
  have no: "?r \<notin> set (events_of (create_compressed_archive (tar_opened w) (read_file w) [wav, json] ?ap))"
    using create_compressed_archive_event by fastforce
  have some: "\<And>v. ?c = Returned v \<Longrightarrow> v \<noteq> None \<Longrightarrow> v = Some ?ap"
    using create_compressed_archive_Some by fastforce
  show ?thesis
    unfolding execute_gpu_service_def Let_def
    using no some archive_path_nonempty[of d "timestamp w"]
    apply (simp add: chain chain_except appends_create_compressed_archive)
    apply (auto simp: create_compressed_archive_not_Raised)
    done
qed

lemma execute_gpu_service_Some:
  "outcome_of (execute_gpu_service cfg w d wav json) = Returned (Some wd) \<longleftrightarrow>
   wd = work_dir_of cfg (timestamp w)
   \<and> outcome_of (create_compressed_archive (tar_opened w) (read_file w) [wav, json]
                 (os_path_join d (archive_name_of (timestamp w))))
     = Returned (Some (os_path_join d (archive_name_of (timestamp w))))
   \<and> (\<exists>x. setup_run w = Returned x) \<and> (\<exists>x. upload_run w = Returned x)
   \<and> (\<exists>x. unpack_run w = Returned x) \<and> (\<exists>x. start_run w = Returned x)
   \<and> remove_archive w = Returned ()"
  (is "_ \<longleftrightarrow> _ \<and> ?c = Returned (Some ?ap) \<and> ?rest")
proof -
  have some: "\<And>v. ?c = Returned v \<Longrightarrow> v \<noteq> None \<Longrightarrow> v = Some ?ap"
    using create_compressed_archive_Some by fastforce
  show ?thesis
    unfolding execute_gpu_service_def Let_def
    using some archive_path_nonempty[of d "timestamp w"]
    apply (simp add: chain chain_except appends_create_compressed_archive)
    apply (auto simp: create_compressed_archive_not_Raised)
    done
qed

text \<open>
  C5 (as the code has it). \<open>execute_gpu_service\<close> removes the local archive on one
  path only: the archive was created and the remote directory setup, the upload, the
  remote unpacking and the remote start all returned. The removal comes after the remote
  start, not right after the upload, and the function returns the work directory exactly
  when the removal, too, returned. On every path where one of those steps fails the
  archive stays in the input directory.
\<close>

theorem local_bundle_removed_only_after_start:
  fixes cfg w d wav json
  defines "archive_path \<equiv> os_path_join d (archive_name_of (timestamp w))"
  defines "created \<equiv> outcome_of (create_compressed_archive (tar_opened w) (read_file w) [wav, json] archive_path)
                        = Returned (Some archive_path)"
  shows "(Remove archive_path \<in> set (events_of (execute_gpu_service cfg w d wav json)) \<longleftrightarrow>
            created \<and> (\<exists>x. setup_run w = Returned x) \<and> (\<exists>x. upload_run w = Returned x)
                    \<and> (\<exists>x. unpack_run w = Returned x) \<and> (\<exists>x. start_run w = Returned x))
       \<and> (outcome_of (execute_gpu_service cfg w d wav json) = Returned (Some (work_dir_of cfg (timestamp w))) \<longleftrightarrow>
            created \<and> (\<exists>x. setup_run w = Returned x) \<and> (\<exists>x. upload_run w = Returned x)
                    \<and> (\<exists>x. unpack_run w = Returned x) \<and> (\<exists>x. start_run w = Returned x)
                    \<and> remove_archive w = Returned ())"
  unfolding archive_path_def created_def
  using execute_gpu_service_Remove[of d w cfg wav json]
    execute_gpu_service_Some[of cfg w d wav json "work_dir_of cfg (timestamp w)"]
  by simp

lemma demo_archive_created:
  "outcome_of (create_compressed_archive (Returned ()) (\<lambda>p. Returned ''data'')
     [''in/meeting.wav'', ''in/meeting.json''] ''in/input_20240101_120000.tar.gz'')
   = Returned (Some ''in/input_20240101_120000.tar.gz'')"
  by (simp add: outcome_of_def create_compressed_archive_def act_defs)

lemma demo_archive_path:
  "os_path_join ''in'' (archive_name_of ''20240101_120000'') = ''in/input_20240101_120000.tar.gz''"
  by (simp add: os_path_join_def archive_name_of_def suffix_to_prefix)

theorem local_bundle_removed_only_after_start_witness:
  "Remove ''in/input_20240101_120000.tar.gz''
     \<in> set (events_of (execute_gpu_service demo_config demo_launch ''in'' ''in/meeting.wav'' ''in/meeting.json''))
   \<and> outcome_of (execute_gpu_service demo_config demo_launch ''in'' ''in/meeting.wav'' ''in/meeting.json'')
       = Returned (Some ''/remote/work/work_20240101_120000'')"
  using local_bundle_removed_only_after_start[of "''in''" demo_launch demo_config
          "''in/meeting.wav''" "''in/meeting.json''"]
    demo_archive_created
  by (simp add: demo_launch_def demo_config_def demo_archive_path work_dir_of_def)

theorem bundle_left_behind_counterexample:
  "\<not> (outcome_of (create_compressed_archive (tar_opened demo_launch) (read_file demo_launch)
            [''in/meeting.wav'', ''in/meeting.json''] ''in/input_20240101_120000.tar.gz'')
          = Returned (Some ''in/input_20240101_120000.tar.gz'')
        \<and> upload_run (demo_launch\<lparr>start_run := Raised ''ssh: exit status 255''\<rparr>) = Returned []
      \<longrightarrow> Remove ''in/input_20240101_120000.tar.gz''
            \<in> set (events_of (execute_gpu_service demo_config
                  (demo_launch\<lparr>start_run := Raised ''ssh: exit status 255''\<rparr>)
                  ''in'' ''in/meeting.wav'' ''in/meeting.json'')))"
  using execute_gpu_service_Remove[of "''in''" "demo_launch\<lparr>start_run := Raised ''ssh: exit status 255''\<rparr>"
          demo_config "''in/meeting.wav''" "''in/meeting.json''"]
    demo_archive_created
  by (simp add: demo_launch_def demo_archive_path)

subsection \<open>Polling\<close>



subsection \<open>Retrieval: one attempt and the loop\<close>

lemma archive_cmd_not_rm [simp]:
  "CHR ''r'' # x \<noteq> create_archive_cmd wd wav json"
  "create_archive_cmd wd wav json \<noteq> CHR ''r'' # x"
  by (simp_all add: create_archive_cmd_def)


lemma retrieve_attempt_Returned:
  "outcome_of (retrieve_attempt cfg aw wd td wav json k) = Returned b \<longleftrightarrow>
     b \<and> (k = 0 \<or> backoff_sleep aw = Returned ())
       \<and> (\<exists>x. archive_run aw = Returned x) \<and> (\<exists>x. download_run aw = Returned x)
       \<and> (\<exists>x. tar_read aw = Returned x)
       \<and> (\<exists>names. listing aw = Returned names \<and> found_files names \<noteq> [])
       \<and> remove_local aw = Returned ()
       \<and> (config_get_keep_remote cfg \<or> (\<exists>x. cleanup_run aw = Returned x))"
  unfolding retrieve_attempt_def Let_def
  by (simp add: chain) blast

lemma retrieve_attempt_rm:
  "Run (ssh cfg (''rm -rf '' @ wd)) \<in> set (events_of (retrieve_attempt cfg aw wd td wav json k)) \<longleftrightarrow>
     \<not> config_get_keep_remote cfg
       \<and> (k = 0 \<or> backoff_sleep aw = Returned ())
       \<and> (\<exists>x. archive_run aw = Returned x) \<and> (\<exists>x. download_run aw = Returned x)
       \<and> (\<exists>x. tar_read aw = Returned x)
       \<and> (\<exists>names. listing aw = Returned names \<and> found_files names \<noteq> [])
       \<and> remove_local aw = Returned ()"
  unfolding retrieve_attempt_def Let_def
  by (simp add: chain ssh_def) blast

text \<open>The loop, one step at a time, in terms of outcomes and events.\<close>

lemma retrieve_loop_outcome:
  assumes "k < n"
  shows "outcome_of (retrieve_loop cfg w wd td wav json n k) =
     (case outcome_of (retrieve_attempt cfg (w k) wd td wav json k) of
        Returned b \<Rightarrow> Returned (Some b)
      | Raised e \<Rightarrow>
          if k = n - 1 then Raised (''Failed after '' @ str_nat n @ '' attempts: '' @ e)
          else outcome_of (retrieve_loop cfg w wd td wav json n (Suc k))
      | Interrupted \<Rightarrow> Interrupted)"
  using appends_run[OF appends_retrieve_attempt, of cfg "w k" wd td wav json k "[]"]
    appends_run[OF appends_retrieve_loop, of cfg w wd td wav json n "Suc k"]
  by (simp add: outcome_of_def[of "retrieve_loop cfg w wd td wav json n k"] retrieve_loop_step[OF assms]
        split: outcome.splits)

lemma retrieve_loop_events:
  assumes "k < n"
  shows "events_of (retrieve_loop cfg w wd td wav json n k) =
     events_of (retrieve_attempt cfg (w k) wd td wav json k) @
     (case outcome_of (retrieve_attempt cfg (w k) wd td wav json k) of
        Returned b \<Rightarrow> []
      | Raised e \<Rightarrow>
          if k = n - 1 then []
          else Logged WARNING (''Attempt '' @ str_nat (k + 1) @ '' failed: '' @ e)
                 # events_of (retrieve_loop cfg w wd td wav json n (Suc k))
      | Interrupted \<Rightarrow> [])"
  using appends_run[OF appends_retrieve_attempt, of cfg "w k" wd td wav json k "[]"]
    appends_run[OF appends_retrieve_loop, of cfg w wd td wav json n "Suc k"]
  by (simp add: events_of_def[of "retrieve_loop cfg w wd td wav json n k"] retrieve_loop_step[OF assms]
        split: outcome.splits)

lemma retrieve_loop_Returned:
  assumes "outcome_of (retrieve_loop cfg w wd td wav json n k) = Returned (Some b)"
  shows "\<exists>j. k \<le> j \<and> j < n \<and> outcome_of (retrieve_attempt cfg (w j) wd td wav json j) = Returned b
            \<and> set (events_of (retrieve_attempt cfg (w j) wd td wav json j))
                \<subseteq> set (events_of (retrieve_loop cfg w wd td wav json n k))"
  using assms
proof (induction "n - k" arbitrary: k)
  case 0
  then show ?case by (simp add: outcome_of_def retrieve_loop_end)
next
  case (Suc d)
  have kn: "k < n" using Suc(2) by simp
  show ?case
  proof (cases "outcome_of (retrieve_attempt cfg (w k) wd td wav json k)")
    case (Returned b')
    then show ?thesis using Suc(3) kn
      by (auto simp: retrieve_loop_outcome[OF kn] retrieve_loop_events[OF kn] intro!: exI[of _ k])
  next
    case Interrupted
    then show ?thesis using Suc(3) by (simp add: retrieve_loop_outcome[OF kn])
  next
    case (Raised e)
    show ?thesis
    proof (cases "k = n - 1")
      case True
      from Suc(3) have False
        unfolding retrieve_loop_outcome[OF kn] Raised using True by simp
      then show ?thesis ..
    next
      case False
      have d: "d = n - Suc k" using Suc(2) by simp
      have "outcome_of (retrieve_loop cfg w wd td wav json n (Suc k)) = Returned (Some b)"
        using Suc(3) Raised False by (simp add: retrieve_loop_outcome[OF kn])
      from Suc(1)[OF d this] obtain j where
        j: "Suc k \<le> j" "j < n"
           "outcome_of (retrieve_attempt cfg (w j) wd td wav json j) = Returned b"
           "set (events_of (retrieve_attempt cfg (w j) wd td wav json j))
              \<subseteq> set (events_of (retrieve_loop cfg w wd td wav json n (Suc k)))"
        by blast
      show ?thesis
        using j Raised False by (intro exI[of _ j]) (auto simp: retrieve_loop_events[OF kn])
    qed
  qed
qed


lemma retrieve_attempt_marks:
  assumes "k = 0 \<or> backoff_sleep aw = Returned ()"
  shows "filter (\<lambda>ev. is_sleep ev \<or> ev = Run (ssh cfg (create_archive_cmd wd wav json)))
           (events_of (retrieve_attempt cfg aw wd td wav json k))
         = (if k > 0 then [Sleep (k * 2)] else []) @ [Run (ssh cfg (create_archive_cmd wd wav json))]"
proof (cases "k = 0")
  case True
  show ?thesis
    unfolding retrieve_attempt_def Let_def True
    apply (simp add: events_of_and_then outcome_of_and_then appends_rules split del: if_split)
    apply (auto simp add: filter_empty_conv chain ssh_def split: outcome.splits)
    done
next
  case False
  then have b: "backoff_sleep aw = Returned ()" and k: "0 < k" using assms by auto
  show ?thesis
    unfolding retrieve_attempt_def Let_def
    apply (simp add: events_of_and_then outcome_of_and_then appends_rules b k split del: if_split)
    apply (auto simp add: filter_empty_conv chain ssh_def split: outcome.splits)
    done
qed

lemma retrieve_results_Returned_True:
  "outcome_of (retrieve_results cfg w wd ld orig n d) = Returned (Some True) \<longleftrightarrow>
     makedirs w = Returned () \<and> initial_sleep w = Returned ()
     \<and> outcome_of (retrieve_loop cfg (attempts w) wd (os_path_join ld ''transcripts'')
          (basename (fst orig)) (basename (snd orig)) n 0) = Returned (Some True)"
  unfolding retrieve_results_def Let_def
  by (simp add: chain chain_except)




lemma successful_retrieve_cleans_up:
  assumes "outcome_of (retrieve_results cfg w wd ld orig n d) = Returned (Some True)"
      and "\<not> config_get_keep_remote cfg"
  shows "Run (ssh cfg (''rm -rf '' @ wd)) \<in> set (events_of (retrieve_results cfg w wd ld orig n d))"
proof -
  let ?L = "retrieve_loop cfg (attempts w) wd (os_path_join ld ''transcripts'')
              (basename (fst orig)) (basename (snd orig)) n 0"
  from assms(1) have m: "makedirs w = Returned ()" "initial_sleep w = Returned ()"
    and l: "outcome_of ?L = Returned (Some True)"
    unfolding retrieve_results_Returned_True by auto
  from retrieve_loop_Returned[OF l] obtain j where
    j: "outcome_of (retrieve_attempt cfg (attempts w j) wd (os_path_join ld ''transcripts'')
           (basename (fst orig)) (basename (snd orig)) j) = Returned True"
       "set (events_of (retrieve_attempt cfg (attempts w j) wd (os_path_join ld ''transcripts'')
           (basename (fst orig)) (basename (snd orig)) j)) \<subseteq> set (events_of ?L)"
    by blast
  from j(1) assms(2) have
    "Run (ssh cfg (''rm -rf '' @ wd))
       \<in> set (events_of (retrieve_attempt cfg (attempts w j) wd (os_path_join ld ''transcripts'')
           (basename (fst orig)) (basename (snd orig)) j))"
    unfolding retrieve_attempt_Returned retrieve_attempt_rm by blast
  with j(2) have "Run (ssh cfg (''rm -rf '' @ wd)) \<in> set (events_of ?L)" by blast
  then show ?thesis
    unfolding retrieve_results_def Let_def using m
    by (simp add: chain chain_except)
qed

text \<open>
  C2. With \<open>max_retries = 3\<close> and every attempt failing, \<open>retrieve_results\<close> sleeps
  \<open>initial_delay\<close> once, then makes exactly three attempts (three times the remote archive
  command), sleeping \<open>1 * 2\<close> seconds before the second and \<open>2 * 2\<close> seconds before
  the third; it then gives up: the last thing it does is to log the error
  "Failed after 3 attempts: ..." that wraps the text of the last underlying error, and it
  returns \<open>False\<close>.
\<close>

theorem three_failed_attempts:
  fixes cfg w wd ld orig d e0 e1 e2
  defines "td \<equiv> os_path_join ld ''transcripts''"
      and "wav \<equiv> basename (fst orig)"
      and "json \<equiv> basename (snd orig)"
  defines "archive \<equiv> Run (ssh cfg (create_archive_cmd wd wav json))"
  assumes pre: "makedirs w = Returned ()" "initial_sleep w = Returned ()"
      and backoff: "backoff_sleep (attempts w 1) = Returned ()" "backoff_sleep (attempts w 2) = Returned ()"
      and fail0: "outcome_of (retrieve_attempt cfg (attempts w 0) wd td wav json 0) = Raised e0"
      and fail1: "outcome_of (retrieve_attempt cfg (attempts w 1) wd td wav json 1) = Raised e1"
      and fail2: "outcome_of (retrieve_attempt cfg (attempts w 2) wd td wav json 2) = Raised e2"
  shows "outcome_of (retrieve_results cfg w wd ld orig 3 d) = Returned (Some False)
       \<and> filter (\<lambda>ev. is_sleep ev \<or> ev = archive) (events_of (retrieve_results cfg w wd ld orig 3 d))
           = [Sleep d, archive, Sleep 2, archive, Sleep 4, archive]
       \<and> last (events_of (retrieve_results cfg w wd ld orig 3 d))
           = Logged ERROR (''Error retrieving results: Failed after 3 attempts: '' @ e2)"
proof -
  let ?A = "\<lambda>k. retrieve_attempt cfg (attempts w k) wd td wav json k"
  let ?L = "\<lambda>k. retrieve_loop cfg (attempts w) wd td wav json 3 k"
  let ?P = "\<lambda>ev. is_sleep ev \<or> ev = archive"
  have f1: "outcome_of (?A (Suc 0)) = Raised e1" using fail1 by simp
  have f2: "outcome_of (?A (Suc (Suc 0))) = Raised e2" using fail2 by (simp add: numeral_2_eq_2)
  have o2: "outcome_of (?L (Suc (Suc 0))) = Raised (''Failed after 3 attempts: '' @ e2)"
    by (simp add: retrieve_loop_outcome f2 str_nat.simps digit_char_def)
  have o1: "outcome_of (?L (Suc 0)) = Raised (''Failed after 3 attempts: '' @ e2)"
    by (simp add: retrieve_loop_outcome f1 o2)
  have o0: "outcome_of (?L 0) = Raised (''Failed after 3 attempts: '' @ e2)"
    by (simp add: retrieve_loop_outcome fail0 o1)
  have e2: "events_of (?L (Suc (Suc 0))) = events_of (?A (Suc (Suc 0)))"
    by (simp add: retrieve_loop_events f2)
  have e1: "events_of (?L (Suc 0)) =
      events_of (?A (Suc 0)) @ Logged WARNING (''Attempt 2 failed: '' @ e1) # events_of (?A (Suc (Suc 0)))"
    by (simp add: retrieve_loop_events f1 e2 str_nat.simps digit_char_def)
  have e0: "events_of (?L 0) =
      events_of (?A 0) @ Logged WARNING (''Attempt 1 failed: '' @ e0) #
      events_of (?A (Suc 0)) @ Logged WARNING (''Attempt 2 failed: '' @ e1) # events_of (?A (Suc (Suc 0)))"
    by (simp add: retrieve_loop_events fail0 e1 str_nat.simps digit_char_def)
  have m: "filter ?P (events_of (?A 0)) = [archive]"
          "filter ?P (events_of (?A (Suc 0))) = [Sleep 2, archive]"
          "filter ?P (events_of (?A (Suc (Suc 0)))) = [Sleep 4, archive]"
    unfolding archive_def using backoff by (simp_all add: retrieve_attempt_marks numeral_2_eq_2)
  have out: "outcome_of (retrieve_results cfg w wd ld orig 3 d) = Returned (Some False)"
    unfolding retrieve_results_def Let_def
    using pre o0 by (simp add: outcome_of_and_then outcome_of_except appends_rules td_def wav_def json_def)
  have ev: "events_of (retrieve_results cfg w wd ld orig 3 d) =
      Makedirs td # Sleep d # events_of (?L 0) @
      [Logged ERROR (''Error retrieving results: Failed after 3 attempts: '' @ e2)]"
    unfolding retrieve_results_def Let_def
    using pre o0
    by (simp add: events_of_and_then outcome_of_and_then events_of_except outcome_of_except appends_rules
          td_def wav_def json_def)
  show ?thesis
    unfolding ev e0 using out m by (simp add: archive_def)
qed

subsection \<open>Retrieval in the example worlds\<close>

lemmas demo_more = demo_retrieval_failing_def demo_attempts_failing_def
  demo_retrieval_cleanup_lost_def demo_attempts_cleanup_lost_def

lemma demo_found:
  "found_files [''results.tar.gz'', ''transcript_20240101_120500.txt''] \<noteq> []"
  "found_files [''results.tar.gz''] = []"
  by code_simp+

lemma demo_attempt_succeeds:
  "outcome_of (retrieve_attempt demo_config demo_attempt wd td wav json k) = Returned True"
  unfolding retrieve_attempt_Returned by (simp add: demo_defs demo_found)

lemma demo_retrieval_succeeds:
  "outcome_of (retrieve_results demo_config demo_retrieval wd ld orig 3 d) = Returned (Some True)"
  unfolding retrieve_results_Returned_True
  by (simp add: retrieve_loop_outcome demo_retrieval_def demo_attempt_succeeds)




lemma demo_failing_attempts:
  "outcome_of (retrieve_attempt demo_config (attempts demo_retrieval_failing 0) wd td wav json 0)
     = Raised ''tar failed''"
  "outcome_of (retrieve_attempt demo_config (attempts demo_retrieval_failing 1) wd td wav json 1)
     = Raised ''rsync failed''"
  "outcome_of (retrieve_attempt demo_config (attempts demo_retrieval_failing 2) wd td wav json 2)
     = Raised ''No transcript files found in the extracted archive''"
  unfolding retrieve_attempt_def Let_def
  by (simp_all add: chain demo_defs demo_more demo_found)

theorem three_failed_attempts_witness:
  "outcome_of (retrieve_results demo_config demo_retrieval_failing ''/remote/work/work_1'' ''in''
      (''in/meeting.wav'', ''in/meeting.json'') 3 5) = Returned (Some False)
   \<and> filter (\<lambda>ev. is_sleep ev
               \<or> ev = Run (ssh demo_config (create_archive_cmd ''/remote/work/work_1'' ''meeting.wav'' ''meeting.json'')))
        (events_of (retrieve_results demo_config demo_retrieval_failing ''/remote/work/work_1'' ''in''
           (''in/meeting.wav'', ''in/meeting.json'') 3 5))
      = [Sleep 5,
         Run (ssh demo_config (create_archive_cmd ''/remote/work/work_1'' ''meeting.wav'' ''meeting.json'')),
         Sleep 2,
         Run (ssh demo_config (create_archive_cmd ''/remote/work/work_1'' ''meeting.wav'' ''meeting.json'')),
         Sleep 4,
         Run (ssh demo_config (create_archive_cmd ''/remote/work/work_1'' ''meeting.wav'' ''meeting.json''))]
   \<and> last (events_of (retrieve_results demo_config demo_retrieval_failing ''/remote/work/work_1'' ''in''
           (''in/meeting.wav'', ''in/meeting.json'') 3 5))
      = Logged ERROR ''Error retrieving results: Failed after 3 attempts: No transcript files found in the extracted archive''"
proof -
  have b: "basename ''in/meeting.wav'' = ''meeting.wav''" "basename ''in/meeting.json'' = ''meeting.json''"
    by (simp_all add: basename_def)
  have p: "makedirs demo_retrieval_failing = Returned ()" "initial_sleep demo_retrieval_failing = Returned ()"
    "backoff_sleep (attempts demo_retrieval_failing 1) = Returned ()"
    "backoff_sleep (attempts demo_retrieval_failing 2) = Returned ()"
    by (simp_all add: demo_defs demo_more)
  from three_failed_attempts[OF p demo_failing_attempts,
      of "''/remote/work/work_1''" "''in''" "(''in/meeting.wav'', ''in/meeting.json'')" 5]
  show ?thesis by (simp add: b)
qed





subsection \<open>The result bundle command\<close>






subsection \<open>The driver\<close>

lemma appends_verify_connection [intro!]: "appends (verify_connection cfg r)"
  unfolding verify_connection_def by (intro appends_rules)

lemma appends_find_audio_pair [intro!]: "appends (find_audio_pair d a b)"
  unfolding find_audio_pair_def by (intro appends_rules)

lemma appends_load_config [intro!]: "appends (load_config n f)"
  unfolding load_config_def by (auto intro!: appends_rules split: config_file.splits option.splits)

lemma appends_GPUController [intro!]: "appends (GPUController n w)"
  unfolding GPUController_def by (intro appends_rules appends_load_config)

lemma appends_main_launch: "appends (main_launch a w)"
  unfolding main_launch_def
  by (auto intro!: appends_rules appends_GPUController appends_verify_connection appends_find_audio_pair
        appends_execute_gpu_service split: prod.splits option.splits)

lemmas appends_main = appends_GPUController appends_verify_connection appends_find_audio_pair
  appends_execute_gpu_service appends_load_config

lemma main_launch_Inr:
  assumes "outcome_of (main_launch a w) = Returned (Inr (c, wav, json, wd))"
  shows "outcome_of (GPUController (arg_config a) w) = Returned c
       \<and> wd = work_dir_of c (timestamp (launch w))"
  using assms unfolding main_launch_def
  by (auto simp add: chain appends_main execute_gpu_service_Some split: prod.splits option.splits if_splits)


lemma main_launch_Inl:
  assumes "outcome_of (main_launch a w) = Returned (Inl x)"
  shows "x = ConnectionFailed \<or> x = NoValidPair \<or> x = StartFailed"
  using assms unfolding main_launch_def
  by (auto simp add: chain appends_main split: prod.splits option.splits if_splits)

lemma main_launch_run: "main_launch a w [] = (outcome_of (main_launch a w), events_of (main_launch a w))"
  by (simp add: outcome_of_def events_of_def)

lemma main_ResultsRetrieved:
  assumes "main a w = Some (ResultsRetrieved, t)"
  obtains c wav json wd t2 where
    "outcome_of (main_launch a w) = Returned (Inr (c, wav, json, wd))"
    "retrieve_results c (retrieval w) wd (arg_input a) (wav, json) 3 5 t2 = (Returned (Some True), t)"
  using assms unfolding main_def main_launch_run
  by (auto split: if_splits prod.splits outcome.splits sum.splits option.splits dest: main_launch_Inl)

text \<open>
  C9. \<open>main\<close> never reads the command-line flag \<^verbatim>\<open>--keep-remote\<close>: a run behaves the
  same whatever the flag is. Whether the remote work directory is deleted after a
  successful retrieval depends on \<^verbatim>\<open>keep_remote\<close> in the configuration file alone: when
  the flag is given on the command line and the configuration does not set
  \<^verbatim>\<open>keep_remote\<close>, a run that retrieves the results has issued \<^verbatim>\<open>rm -rf\<close> on the remote
  work directory.
\<close>

theorem cli_keep_remote_is_ignored:
  "main (a\<lparr>arg_keep_remote := flag\<rparr>) w = main a w
   \<and> (main (a\<lparr>arg_keep_remote := True\<rparr>) w = Some (ResultsRetrieved, t)
        \<and> outcome_of (GPUController (arg_config a) w) = Returned cfg
        \<and> \<not> config_get_keep_remote cfg
      \<longrightarrow> Run (ssh cfg (''rm -rf '' @ work_dir_of cfg (timestamp (launch w)))) \<in> set t)"
proof -
  have acc: "arg_input (a\<lparr>arg_keep_remote := b\<rparr>) = arg_input a"
            "arg_config (a\<lparr>arg_keep_remote := b\<rparr>) = arg_config a" for b
    by simp_all
  have ind: "main (a\<lparr>arg_keep_remote := b\<rparr>) w = main a w" for b
    unfolding main_def main_launch_def acc ..
  have "Run (ssh cfg (''rm -rf '' @ work_dir_of cfg (timestamp (launch w)))) \<in> set t"
    if m: "main a w = Some (ResultsRetrieved, t)"
      and c: "outcome_of (GPUController (arg_config a) w) = Returned cfg"
      and k: "\<not> config_get_keep_remote cfg"
  proof -
    from m obtain c' wav json wd t2 where
      l: "outcome_of (main_launch a w) = Returned (Inr (c', wav, json, wd))"
      and r: "retrieve_results c' (retrieval w) wd (arg_input a) (wav, json) 3 5 t2 = (Returned (Some True), t)"
      by (rule main_ResultsRetrieved)
    from main_launch_Inr[OF l] c have c': "c' = cfg" and wd: "wd = work_dir_of cfg (timestamp (launch w))"
      by auto
    let ?R = "retrieve_results cfg (retrieval w) wd (arg_input a) (wav, json) 3 5"
    from r appends_run[OF appends_retrieve_results, of cfg "retrieval w" wd "arg_input a" "(wav, json)" 3 5 t2]
    have o: "outcome_of ?R = Returned (Some True)" and t: "t = t2 @ events_of ?R"
      unfolding c' by auto
    from successful_retrieve_cleans_up[OF o k] show ?thesis unfolding t wd by simp
  qed
  with ind show ?thesis by simp
qed


lemma appends_case_prod: "(\<And>a b. appends (f a b)) \<Longrightarrow> appends (case p of (a, b) \<Rightarrow> f a b)"
  by (cases p) simp

lemma appends_case_option:
  "appends n \<Longrightarrow> (\<And>x. appends (s x)) \<Longrightarrow> appends (case v of None \<Rightarrow> n | Some x \<Rightarrow> s x)"
  by (cases v) simp_all

lemma demo_execute:
  "outcome_of (execute_gpu_service demo_config demo_launch ''in'' ''in/meeting.wav'' ''in/meeting.json'')
     = Returned (Some ''/remote/work/work_20240101_120000'')"
  unfolding execute_gpu_service_Some
  by (simp add: demo_launch_def demo_config_def demo_archive_created demo_archive_path work_dir_of_def)

lemma demo_main_launch:
  "outcome_of (main_launch demo_args (demo_world\<lparr>polls := p\<rparr>)) =
     Returned (Inr (demo_config, ''in/meeting.wav'', ''in/meeting.json'', ''/remote/work/work_20240101_120000''))"
  unfolding main_launch_def
  apply (simp add: chain chain_except appends_main appends_case_prod appends_case_option
        GPUController_def load_config_def verify_connection_def
        find_audio_pair_def demo_world_def demo_args_def demo_config_def)
  apply (rule conjI, blast)
  apply (rule exI[of _ "Some ''/remote/work/work_20240101_120000''"])
  apply (simp add: demo_execute[unfolded demo_config_def])
  done

lemma demo_world_polls: "demo_world\<lparr>polls := polls demo_world\<rparr> = demo_world"
  by simp

lemma demo_monitor:
  "monitor_process demo_config wd (polls demo_world) t =
     Some (True, t @ [Run (ssh demo_config (''tail -n 1 '' @ wd @ ''/process.log'')),
                      Run (ssh demo_config (''test -f '' @ wd @ ''/COMPLETED'')),
                      Sleep 5,
                      Run (ssh demo_config (''tail -n 1 '' @ wd @ ''/process.log'')),
                      Run (ssh demo_config (''test -f '' @ wd @ ''/COMPLETED'')),
                      Logged INFO ''Processing completed successfully''])"
  by (simp add: monitor_process_def monitor_loop.simps poll_once_def act_defs demo_world_def
        demo_poll_waiting_def demo_poll_done_def)

theorem cli_keep_remote_is_ignored_witness:
  "\<exists>t. main demo_args demo_world = Some (ResultsRetrieved, t)
      \<and> Run (ssh demo_config ''rm -rf /remote/work/work_20240101_120000'') \<in> set t"
proof -
  let ?wd = "''/remote/work/work_20240101_120000''"
  let ?R = "retrieve_results demo_config demo_retrieval ?wd ''in'' (''in/meeting.wav'', ''in/meeting.json'') 3 5"
  have l: "main_launch demo_args demo_world [] =
      (Returned (Inr (demo_config, ''in/meeting.wav'', ''in/meeting.json'', ?wd)),
       events_of (main_launch demo_args demo_world))"
    using demo_main_launch[of "polls demo_world"] unfolding demo_world_polls main_launch_run by simp
  have r: "?R t = (Returned (Some True), t @ events_of ?R)" for t
    using appends_run[OF appends_retrieve_results, of demo_config demo_retrieval ?wd "''in''" _ 3 5 t]
      demo_retrieval_succeeds by simp
  have rw: "retrieval demo_world = demo_retrieval" "isdir demo_world" "arg_input demo_args = ''in''"
    by (simp_all add: demo_world_def demo_args_def)
  obtain t where m: "main demo_args demo_world = Some (ResultsRetrieved, t)"
    unfolding main_def l by (simp add: demo_monitor r rw)
  have g: "outcome_of (GPUController (arg_config demo_args) demo_world) = Returned demo_config"
    by (simp add: GPUController_def load_config_def chain demo_defs)
  have k: "\<not> config_get_keep_remote demo_config"
    by (simp add: config_get_keep_remote_def demo_config_def)
  have a: "demo_args\<lparr>arg_keep_remote := True\<rparr> = demo_args" by (simp add: demo_args_def)
  from cli_keep_remote_is_ignored[where a=demo_args and flag=True and w=demo_world and t=t and cfg=demo_config] m g k
  have "Run (ssh demo_config (''rm -rf '' @ work_dir_of demo_config (timestamp (launch demo_world)))) \<in> set t"
    unfolding a by blast
  then have "Run (ssh demo_config ''rm -rf /remote/work/work_20240101_120000'') \<in> set t"
    by (simp add: work_dir_of_def demo_defs)
  with m show ?thesis by blast
qed





end
